theory Spec2Isabelle
  imports Complex_Main "HOL-Library.Monad_Syntax"
begin

section \<open>Errors raised by the Python runtime and by TensorFlow\<close>

datatype error =
    AssertionError
  | InvalidArgumentError
  | ValueError

section \<open>Handwriting notebook: dataset splitting\<close>

text \<open>
  Python's slices \<^verbatim>\<open>xs[:k]\<close> and \<^verbatim>\<open>xs[k:]\<close> for an arbitrary integer \<open>k\<close>: a negative
  index counts from the end, and every index is clamped to the list.
\<close>

definition py_index :: "int \<Rightarrow> 'a list \<Rightarrow> nat" where
  "py_index k xs =
     (let n = int (length xs)
      in nat (if k < 0 then max 0 (n + k) else min k n))"

definition slice_to :: "int \<Rightarrow> 'a list \<Rightarrow> 'a list" where
  "slice_to k xs = take (py_index k xs) xs"

definition slice_from :: "int \<Rightarrow> 'a list \<Rightarrow> 'a list" where
  "slice_from k xs = drop (py_index k xs) xs"

record 'a samples =
  train_samples :: "'a list"
  validation_samples :: "'a list"
  test_samples :: "'a list"

text \<open>
  The cell that splits \<^verbatim>\<open>words_list\<close> 90:5:5. The indices are \<^verbatim>\<open>int(0.9 * len(words_list))\<close>
  and \<^verbatim>\<open>int(0.5 * len(test_samples))\<close>: a product in binary floating point, truncated.
  The parameter \<open>int_mul c n\<close> stands for \<^verbatim>\<open>int(c * n)\<close>; nothing is assumed about it.
  The \<^verbatim>\<open>assert\<close> of the cell is the \<open>AssertionError\<close> branch.
\<close>

definition split_words_list :: "(rat \<Rightarrow> nat \<Rightarrow> int) \<Rightarrow> 'a list \<Rightarrow> error + 'a samples" where
  "split_words_list int_mul words_list =
     (let split_idx = int_mul (9 / 10) (length words_list);
          train = slice_to split_idx words_list;
          test = slice_from split_idx words_list;
          val_split_idx = int_mul (1 / 2) (length test);
          validation = slice_to val_split_idx test;
          test = slice_from val_split_idx test
      in if length words_list = length train + length validation + length test
         then Inr \<lparr>train_samples = train, validation_samples = validation, test_samples = test\<rparr>
         else Inl AssertionError)"

section \<open>Handwriting notebook: label vectorisation\<close>

text \<open>
  \<^verbatim>\<open>StringLookup(vocabulary=..., mask_token=None)\<close> with its default single out-of-vocabulary
  index: a token of the vocabulary maps to its position plus one, any other token to 0.
\<close>

primrec lookup_from :: "int \<Rightarrow> 'c list \<Rightarrow> 'c \<Rightarrow> int" where
  "lookup_from i [] c = 0"
| "lookup_from i (v # vs) c = (if v = c then i else lookup_from (i + 1) vs c)"

definition StringLookup :: "'c list \<Rightarrow> 'c \<Rightarrow> int" where
  "StringLookup vocabulary c = lookup_from 1 vocabulary c"

text \<open>
  \<^verbatim>\<open>tf.pad\<close> on a vector with \<^verbatim>\<open>paddings=[[before, after]]\<close>: TensorFlow rejects a negative
  amount.
\<close>

definition tf_pad1 :: "'a list \<Rightarrow> int \<Rightarrow> int \<Rightarrow> 'a \<Rightarrow> error + 'a list" where
  "tf_pad1 xs before after constant_values =
     (if before < 0 \<or> after < 0 then Inl InvalidArgumentError
      else Inr (replicate (nat before) constant_values @ xs @ replicate (nat after) constant_values))"

definition padding_token :: int where
  "padding_token = 99"

text \<open>
  \<^verbatim>\<open>vectorize_label\<close>: the label is a list of characters (what \<^verbatim>\<open>tf.strings.unicode_split\<close>
  yields); \<open>char_to_num\<close> and \<open>max_len\<close> are the notebook's globals.
\<close>

definition vectorize_label :: "('c \<Rightarrow> int) \<Rightarrow> int \<Rightarrow> 'c list \<Rightarrow> error + int list" where
  "vectorize_label char_to_num max_len label =
     (let label' = map char_to_num label;
          length' = int (length label');
          pad_amount = max_len - length'
      in tf_pad1 label' 0 pad_amount padding_token)"

section \<open>Handwriting notebook: resizing images without distortion\<close>

text \<open>
  A rank-3 tensor is its shape and its entries, which are read only inside the shape. An image
  has the axes height, width, channels.
\<close>
record 'a tensor3 =
  dim0 :: nat
  dim1 :: nat
  dim2 :: nat
  elem :: "nat \<Rightarrow> nat \<Rightarrow> nat \<Rightarrow> 'a"

definition shape :: "'a tensor3 \<Rightarrow> nat \<times> nat \<times> nat" where
  "shape t = (dim0 t, dim1 t, dim2 t)"

text \<open>
  \<^verbatim>\<open>tf.pad\<close> with \<^verbatim>\<open>paddings=[p0, p1, p2]\<close> and the default constant 0; a negative amount
  is rejected.
\<close>

definition tf_pad3 ::
  "'a::zero tensor3 \<Rightarrow> int \<times> int \<Rightarrow> int \<times> int \<Rightarrow> int \<times> int \<Rightarrow> error + 'a tensor3" where
  "tf_pad3 t p0 p1 p2 =
     (if fst p0 < 0 \<or> snd p0 < 0 \<or> fst p1 < 0 \<or> snd p1 < 0 \<or> fst p2 < 0 \<or> snd p2 < 0
      then Inl InvalidArgumentError
      else Inr \<lparr>dim0 = nat (fst p0) + dim0 t + nat (snd p0),
                dim1 = nat (fst p1) + dim1 t + nat (snd p1),
                dim2 = nat (fst p2) + dim2 t + nat (snd p2),
                elem = (\<lambda>i j k.
                  if nat (fst p0) \<le> i \<and> i < nat (fst p0) + dim0 t
                     \<and> nat (fst p1) \<le> j \<and> j < nat (fst p1) + dim1 t
                     \<and> nat (fst p2) \<le> k \<and> k < nat (fst p2) + dim2 t
                  then elem t (i - nat (fst p0)) (j - nat (fst p1)) (k - nat (fst p2))
                  else 0)\<rparr>)"

text \<open>\<^verbatim>\<open>tf.transpose(image, perm=[1, 0, 2])\<close> swaps the first two axes.\<close>

definition tf_transpose_102 :: "'a tensor3 \<Rightarrow> 'a tensor3" where
  "tf_transpose_102 t =
     \<lparr>dim0 = dim1 t, dim1 = dim0 t, dim2 = dim2 t, elem = (\<lambda>i j k. elem t j i k)\<rparr>"

text \<open>\<^verbatim>\<open>tf.image.flip_left_right\<close> reverses the width axis, the second one.\<close>

definition flip_left_right :: "'a tensor3 \<Rightarrow> 'a tensor3" where
  "flip_left_right t = t\<lparr>elem := (\<lambda>i j k. elem t i (dim1 t - 1 - j) k)\<rparr>"

text \<open>
  The split of a padding amount into its two sides, which the source writes out once for the
  height and once for the width: \<^verbatim>\<open>%\<close> and \<^verbatim>\<open>//\<close> round towards minus infinity, as
  \<open>mod\<close> and \<open>div\<close> on \<open>int\<close> do.
\<close>

definition pad_sides :: "int \<Rightarrow> int \<times> int" where
  "pad_sides pad =
     (if pad mod 2 \<noteq> 0 then (let half = pad div 2 in (half + 1, half))
      else (pad div 2, pad div 2))"

text \<open>
  \<^verbatim>\<open>distortion_free_resize\<close>. The parameter \<open>resize img (h, w)\<close> stands for
  \<^verbatim>\<open>tf.image.resize(image, size=(h, w), preserve_aspect_ratio=True)\<close>, which the framework
  computes in floating point.
\<close>

definition distortion_free_resize ::
  "('a::zero tensor3 \<Rightarrow> nat \<times> nat \<Rightarrow> 'a tensor3) \<Rightarrow> 'a tensor3 \<Rightarrow> nat \<times> nat
     \<Rightarrow> error + 'a tensor3" where
  "distortion_free_resize resize img img_size =
     (let (w, h) = img_size;
          img = resize img (h, w);
          pad_height = int h - int (dim0 img);
          pad_width = int w - int (dim1 img);
          (pad_height_top, pad_height_bottom) = pad_sides pad_height;
          (pad_width_left, pad_width_right) = pad_sides pad_width
      in case tf_pad3 img (pad_height_top, pad_height_bottom)
                (pad_width_left, pad_width_right) (0, 0) of
           Inl e \<Rightarrow> Inl e
         | Inr img \<Rightarrow> Inr (flip_left_right (tf_transpose_102 img)))"

section \<open>Keras functional models as graphs of layer calls\<close>

text \<open>
  The layers the notebooks instantiate, with the arguments they pass (an argument left at its
  default is written out where the shape depends on it): \<open>Conv2D filters kernel_size strides
  padding dilation_rate use_bias activation\<close>, \<open>SeparableConv2D filters kernel_size padding\<close>,
  \<open>Conv2DTranspose filters kernel_size padding\<close> (stride 1), \<open>MaxPooling2D pool_size strides
  padding\<close>, \<open>UpSampling2D size\<close>, \<open>Resizing height width\<close>, the merge layers \<open>Add\<close> and
  \<open>Concatenate\<close> (last axis), and \<open>ResNetBlock block_num\<close>, the sub-model that
  \<^verbatim>\<open>get_resnet_block\<close> cuts out of the ResNet-34 backbone.
\<close>

datatype padding = Valid | Same

datatype layer =
    InputLayer
  | Conv2D nat nat nat padding nat bool "string option"
  | SeparableConv2D nat nat padding
  | Conv2DTranspose nat nat padding
  | BatchNormalization
  | Activation string
  | MaxPooling2D nat nat padding
  | UpSampling2D nat
  | Resizing nat nat
  | Add
  | Concatenate
  | ResNetBlock nat

text \<open>
  A static shape without the batch axis: height, width, channels for an image. The shape
  rules below are those of the framework: with \<^verbatim>\<open>padding="same"\<close> a window of stride \<open>s\<close>
  maps a length \<open>n\<close> to the ceiling of \<open>n / s\<close>; with \<^verbatim>\<open>"valid"\<close> the window must fit. A layer
  called on inputs it cannot take raises, which is \<open>None\<close> here.
\<close>

type_synonym shape = "nat list"

definition conv_output_length :: "nat \<Rightarrow> nat \<Rightarrow> padding \<Rightarrow> nat \<Rightarrow> nat \<Rightarrow> nat option" where
  "conv_output_length n k p s d =
     (case p of
        Same \<Rightarrow> Some ((n + s - 1) div s)
      | Valid \<Rightarrow> (let span = d * (k - 1) + 1
                  in if n < span then None else Some ((n - span) div s + 1)))"

text \<open>The four stacks of the ResNet-34 backbone: their widths and their strides.\<close>

definition resnet34_filters :: "nat list" where
  "resnet34_filters = [64, 128, 256, 512]"

definition resnet34_strides :: "nat list" where
  "resnet34_strides = [1, 2, 2, 2]"

definition spatial :: "nat \<Rightarrow> nat \<Rightarrow> nat \<Rightarrow> padding \<Rightarrow> nat \<Rightarrow> nat \<Rightarrow> nat \<Rightarrow> shape option" where
  "spatial h w k p s d c =
     (case (conv_output_length h k p s d, conv_output_length w k p s d) of
        (Some h', Some w') \<Rightarrow> Some [h', w', c]
      | _ \<Rightarrow> None)"

definition single_image :: "shape list \<Rightarrow> (nat \<times> nat \<times> nat) option" where
  "single_image ss =
     (case ss of
        [s] \<Rightarrow> (if length s = 3 then Some (s ! 0, s ! 1, s ! 2) else None)
      | _ \<Rightarrow> None)"

definition single_input :: "shape list \<Rightarrow> shape option" where
  "single_input ss = (case ss of [s] \<Rightarrow> Some s | _ \<Rightarrow> None)"

definition compute_output_shape :: "layer \<Rightarrow> shape list \<Rightarrow> shape option" where
  "compute_output_shape l ss =
     (case l of
        InputLayer \<Rightarrow> None
      | Conv2D f k s p d b a \<Rightarrow>
          Option.bind (single_image ss) (\<lambda>(h, w, c). spatial h w k p s d f)
      | SeparableConv2D f k p \<Rightarrow>
          Option.bind (single_image ss) (\<lambda>(h, w, c). spatial h w k p 1 1 f)
      | Conv2DTranspose f k p \<Rightarrow>
          Option.bind (single_image ss) (\<lambda>(h, w, c).
            case p of Same \<Rightarrow> Some [h, w, f] | Valid \<Rightarrow> Some [h + k - 1, w + k - 1, f])
      | BatchNormalization \<Rightarrow> single_input ss
      | Activation a \<Rightarrow> single_input ss
      | MaxPooling2D k s p \<Rightarrow>
          Option.bind (single_image ss) (\<lambda>(h, w, c). spatial h w k p s 1 c)
      | UpSampling2D k \<Rightarrow>
          Option.bind (single_image ss) (\<lambda>(h, w, c). Some [h * k, w * k, c])
      | Resizing h' w' \<Rightarrow>
          Option.bind (single_image ss) (\<lambda>(h, w, c). Some [h', w', c])
      | Add \<Rightarrow>
          (case ss of
             [] \<Rightarrow> None
           | s # rest \<Rightarrow> if list_all (\<lambda>t. t = s) rest then Some s else None)
      | Concatenate \<Rightarrow>
          (case ss of
             [] \<Rightarrow> None
           | s # rest \<Rightarrow>
               if s \<noteq> [] \<and> list_all (\<lambda>t. t \<noteq> [] \<and> butlast t = butlast s) rest
               then Some (butlast s @ [sum_list (map last (s # rest))])
               else None)
      | ResNetBlock i \<Rightarrow>
          Option.bind (single_image ss) (\<lambda>(h, w, c).
            if i < 4 then spatial h w 3 Same (resnet34_strides ! i) 1 (resnet34_filters ! i)
            else None))"

text \<open>
  A call of a layer adds a node to the graph and returns a symbolic tensor that knows its
  producing node and its static shape. The graph lists the nodes newest first; a new node takes
  the next free identifier.
\<close>

datatype node = Node (node_id: nat) (layer: layer) (inbound: "nat list") (out_shape: shape)

type_synonym graph = "node list"

record keras_tensor =
  producer :: nat
  static_shape :: shape

definition fresh :: "graph \<Rightarrow> nat" where
  "fresh g = (case g of [] \<Rightarrow> 0 | n # _ \<Rightarrow> node_id n + 1)"

definition Input :: "shape \<Rightarrow> graph \<Rightarrow> keras_tensor \<times> graph" where
  "Input s g =
     (let i = fresh g
      in (\<lparr>producer = i, static_shape = s\<rparr>,
          Node i InputLayer [] s # g))"

definition int_shape :: "keras_tensor \<Rightarrow> shape" where
  "int_shape x = static_shape x"

definition call :: "layer \<Rightarrow> keras_tensor list \<Rightarrow> graph \<Rightarrow> (keras_tensor \<times> graph) option" where
  "call l xs g =
     (case compute_output_shape l (map static_shape xs) of
        None \<Rightarrow> None
      | Some s \<Rightarrow>
          (let i = fresh g
           in Some (\<lparr>producer = i, static_shape = s\<rparr>,
                    Node i l (map producer xs) s # g)))"

record model =
  inputs :: keras_tensor
  outputs :: "keras_tensor list"
  graph :: graph

text \<open>A \<^verbatim>\<open>for\<close> loop whose body may raise, and a list comprehension that calls layers.\<close>

fun for_each :: "('a \<Rightarrow> 's \<Rightarrow> 's option) \<Rightarrow> 'a list \<Rightarrow> 's \<Rightarrow> 's option" where
  "for_each body [] s = Some s"
| "for_each body (a # as) s = (case body a s of None \<Rightarrow> None | Some s' \<Rightarrow> for_each body as s')"


section \<open>U-Net notebook: \<^verbatim>\<open>get_model\<close>\<close>

text \<open>
  The bodies of the two loops of \<^verbatim>\<open>get_model\<close>; the loop state is \<open>x\<close>,
  \<open>previous_block_activation\<close> and the graph.
\<close>

definition down_block :: "nat \<Rightarrow> keras_tensor \<times> keras_tensor \<times> graph \<Rightarrow> (keras_tensor \<times> keras_tensor \<times> graph) option" where
  "down_block filters st =
     (case st of (x, previous_block_activation, g) \<Rightarrow> do {
        (x, g) \<leftarrow> call (Activation ''relu'') [x] g;
        (x, g) \<leftarrow> call (SeparableConv2D filters 3 Same) [x] g;
        (x, g) \<leftarrow> call BatchNormalization [x] g;
        (x, g) \<leftarrow> call (Activation ''relu'') [x] g;
        (x, g) \<leftarrow> call (SeparableConv2D filters 3 Same) [x] g;
        (x, g) \<leftarrow> call BatchNormalization [x] g;
        (x, g) \<leftarrow> call (MaxPooling2D 3 2 Same) [x] g;
        (residual, g) \<leftarrow> call (Conv2D filters 1 2 Same 1 True None) [previous_block_activation] g;
        (x, g) \<leftarrow> call Add [x, residual] g;
        Some (x, x, g)
      })"

definition up_block :: "nat \<Rightarrow> keras_tensor \<times> keras_tensor \<times> graph \<Rightarrow> (keras_tensor \<times> keras_tensor \<times> graph) option" where
  "up_block filters st =
     (case st of (x, previous_block_activation, g) \<Rightarrow> do {
        (x, g) \<leftarrow> call (Activation ''relu'') [x] g;
        (x, g) \<leftarrow> call (Conv2DTranspose filters 3 Same) [x] g;
        (x, g) \<leftarrow> call BatchNormalization [x] g;
        (x, g) \<leftarrow> call (Activation ''relu'') [x] g;
        (x, g) \<leftarrow> call (Conv2DTranspose filters 3 Same) [x] g;
        (x, g) \<leftarrow> call BatchNormalization [x] g;
        (x, g) \<leftarrow> call (UpSampling2D 2) [x] g;
        (residual, g) \<leftarrow> call (UpSampling2D 2) [previous_block_activation] g;
        (residual, g) \<leftarrow> call (Conv2D filters 1 1 Same 1 True None) [residual] g;
        (x, g) \<leftarrow> call Add [x, residual] g;
        Some (x, x, g)
      })"

definition get_model :: "nat \<times> nat \<Rightarrow> nat \<Rightarrow> model option" where
  "get_model img_size num_classes = do {
     (inputs, g) \<leftarrow> Some (Input [fst img_size, snd img_size, 3] []);
     (x, g) \<leftarrow> call (Conv2D 32 3 2 Same 1 True None) [inputs] g;
     (x, g) \<leftarrow> call BatchNormalization [x] g;
     (x, g) \<leftarrow> call (Activation ''relu'') [x] g;
     (x, previous_block_activation, g) \<leftarrow> for_each down_block [64, 128, 256] (x, x, g);
     (x, previous_block_activation, g) \<leftarrow> for_each up_block [256, 128, 64, 32] (x, previous_block_activation, g);
     (outputs, g) \<leftarrow> call (Conv2D num_classes 3 1 Same 1 True (Some ''softmax'')) [x] g;
     Some \<lparr>inputs = inputs, outputs = [outputs], graph = g\<rparr>
   }"

section \<open>BASNet notebook: prediction module, refinement module and their combination\<close>












section \<open>Reading a model's graph\<close>

text \<open>
  The node with a given identifier, and the main path of a tensor: the chain of nodes that leads
  from the model's input to it through the first argument of every call. A node's inputs are
  older than the node, so one pass over the graph, newest node first, finds the chain.
\<close>

definition node_of :: "graph \<Rightarrow> nat \<Rightarrow> node option" where
  "node_of g i = find (\<lambda>n. node_id n = i) g"

fun main_path :: "graph \<Rightarrow> nat \<Rightarrow> node list" where
  "main_path [] i = []"
| "main_path (n # g) i =
     (if node_id n = i
      then (case inbound n of [] \<Rightarrow> [n] | j # _ \<Rightarrow> main_path g j @ [n])
      else main_path g i)"

definition output_path :: "model \<Rightarrow> node list" where
  "output_path m = (case outputs m of [x] \<Rightarrow> main_path (graph m) (producer x) | _ \<Rightarrow> [])"

definition output_layers :: "model \<Rightarrow> layer option list" where
  "output_layers m = map (\<lambda>x. map_option layer (node_of (graph m) (producer x))) (outputs m)"

text \<open>Layers that halve and layers that double the spatial size.\<close>

definition downsampling :: "layer \<Rightarrow> bool" where
  "downsampling l =
     (case l of
        Conv2D f k s p d b a \<Rightarrow> s = 2
      | MaxPooling2D k s p \<Rightarrow> s = 2
      | _ \<Rightarrow> False)"

definition upsampling :: "layer \<Rightarrow> bool" where
  "upsampling l = (case l of UpSampling2D k \<Rightarrow> k = 2 | _ \<Rightarrow> False)"

definition resolution_steps :: "(layer \<Rightarrow> bool) \<Rightarrow> model \<Rightarrow> (layer \<times> shape) list" where
  "resolution_steps P m =
     map (\<lambda>n. (layer n, out_shape n)) (filter (\<lambda>n. P (layer n)) (output_path m))"

















text \<open>
  The activation functions the notebooks name, on the vector of channels of one pixel, over
  the reals.
\<close>

definition softmax :: "real list \<Rightarrow> real list" where
  "softmax xs = map (\<lambda>x. exp x / sum_list (map exp xs)) xs"

definition activation_fn :: "string \<Rightarrow> real list \<Rightarrow> real list" where
  "activation_fn a xs =
     (if a = ''softmax'' then softmax xs
      else if a = ''sigmoid'' then map (\<lambda>x. 1 / (1 + exp (- x))) xs
      else if a = ''relu'' then map (max 0) xs
      else xs)"

section \<open>Handwriting notebook: the CTC layer and the decoding of predictions\<close>

text \<open>
  A batch handed to the model, as far as the layer looks at it: its shape and its values.
  \<^verbatim>\<open>tf.shape(t)[i]\<close> needs an axis \<open>i\<close> that the tensor has.
\<close>

record 'a batch =
  batch_shape :: "nat list"
  batch_values :: 'a

definition shape_at :: "'a batch \<Rightarrow> nat \<Rightarrow> error + int" where
  "shape_at t i =
     (if i < length (batch_shape t) then Inr (int (batch_shape t ! i)) else Inl InvalidArgumentError)"

text \<open>\<^verbatim>\<open>tf.ones(shape=(n, 1))\<close> and the product of a scalar with a matrix.\<close>

definition tf_ones :: "int \<Rightarrow> int list list" where
  "tf_ones n = replicate (nat n) [1]"

definition scalar_times :: "int \<Rightarrow> int list list \<Rightarrow> int list list" where
  "scalar_times c t = map (map (\<lambda>v. c * v)) t"

text \<open>
  \<^verbatim>\<open>CTCLayer\<close>: the layer keeps the losses that \<^verbatim>\<open>add_loss\<close> registers. Its \<open>loss_fn\<close> is
  \<^verbatim>\<open>keras.backend.ctc_batch_cost\<close>, a parameter here. \<^verbatim>\<open>call\<close> returns \<open>y_pred\<close> and the
  layer with the loss added.
\<close>

record 'l CTCLayer =
  layer_name :: string
  losses :: "'l list"

definition add_loss :: "'l \<Rightarrow> 'l CTCLayer \<Rightarrow> 'l CTCLayer" where
  "add_loss loss self = self\<lparr>losses := losses self @ [loss]\<rparr>"

definition CTCLayer_call ::
  "('t batch \<Rightarrow> 'p batch \<Rightarrow> int list list \<Rightarrow> int list list \<Rightarrow> 'l) \<Rightarrow> 'l CTCLayer \<Rightarrow> 't batch \<Rightarrow> 'p batch
     \<Rightarrow> error + 'p batch \<times> 'l CTCLayer" where
  "CTCLayer_call loss_fn self y_true y_pred =
     (case (shape_at y_true 0, shape_at y_pred 1, shape_at y_true 1) of
        (Inr batch_len, Inr input_length, Inr label_length) \<Rightarrow>
          (let input_length = scalar_times input_length (tf_ones batch_len);
               label_length = scalar_times label_length (tf_ones batch_len);
               loss = loss_fn y_true y_pred input_length label_length
           in Inr (y_pred, add_loss loss self))
      | _ \<Rightarrow> Inl InvalidArgumentError)"

text \<open>
  The two inputs that \<^verbatim>\<open>build_model\<close> declares, with their shapes without the batch axis; an
  axis declared \<^verbatim>\<open>None\<close> accepts every size.
\<close>

record input_spec =
  spec_name :: string
  spec_shape :: "nat option list"

definition image_width :: nat where
  "image_width = 128"

definition image_height :: nat where
  "image_height = 32"

definition build_model_inputs :: "input_spec list" where
  "build_model_inputs =
     [\<lparr>spec_name = ''image'', spec_shape = [Some image_width, Some image_height, Some 1]\<rparr>,
      \<lparr>spec_name = ''label'', spec_shape = [None]\<rparr>]"

definition accepts :: "nat option list \<Rightarrow> nat list \<Rightarrow> bool" where
  "accepts spec s = list_all2 (\<lambda>d n. case d of None \<Rightarrow> True | Some k \<Rightarrow> k = n) spec s"

definition spec_named :: "string \<Rightarrow> input_spec list \<Rightarrow> nat option list option" where
  "spec_named n specs = map_option spec_shape (find (\<lambda>s. spec_name s = n) specs)"

text \<open>
  Decoding. \<^verbatim>\<open>keras.backend.ctc_decode(pred, input_length, greedy)\<close> is a parameter: it returns a
  list of dense matrices of token indices, padded with -1, and the log probabilities. The
  notebook takes \<^verbatim>\<open>[0][0]\<close> of the result and cuts every row with \<^verbatim>\<open>[:, :max_len]\<close>.
\<close>

definition np_ones_times :: "nat \<Rightarrow> nat \<Rightarrow> real list" where
  "np_ones_times n c = map (\<lambda>one. one * real c) (replicate n 1)"

definition first_decoded :: "int list list list \<times> 'q \<Rightarrow> error + int list list" where
  "first_decoded r = (case fst r of [] \<Rightarrow> Inl ValueError | d # _ \<Rightarrow> Inr d)"

definition decode_greedy ::
  "('p batch \<Rightarrow> real list \<Rightarrow> bool \<Rightarrow> int list list list \<times> 'q) \<Rightarrow> int \<Rightarrow> 'p batch \<Rightarrow> error + int list list" where
  "decode_greedy ctc_decode max_len pred =
     (if length (batch_shape pred) < 2 then Inl ValueError
      else
        (let input_len = np_ones_times (batch_shape pred ! 0) (batch_shape pred ! 1)
         in case first_decoded (ctc_decode pred input_len True) of
              Inl e \<Rightarrow> Inl e
            | Inr decoded \<Rightarrow> Inr (map (slice_to max_len) decoded)))"

text \<open>
  \<^verbatim>\<open>decode_batch_predictions\<close>: every row keeps the entries different from -1, which
  \<open>num_to_char\<close> maps to strings that are joined.
\<close>

definition decode_batch_predictions ::
  "('p batch \<Rightarrow> real list \<Rightarrow> bool \<Rightarrow> int list list list \<times> 'q) \<Rightarrow> (int \<Rightarrow> string) \<Rightarrow> int \<Rightarrow> 'p batch
     \<Rightarrow> error + string list" where
  "decode_batch_predictions ctc_decode num_to_char max_len pred =
     (case decode_greedy ctc_decode max_len pred of
        Inl e \<Rightarrow> Inl e
      | Inr results \<Rightarrow>
          Inr (map (\<lambda>res. concat (map num_to_char (filter (\<lambda>t. t \<noteq> - 1) res))) results))"

text \<open>
  \<^verbatim>\<open>calculate_edit_distance\<close>: \<^verbatim>\<open>tf.sparse.from_dense\<close> keeps the non-zero entries of a row;
  \<^verbatim>\<open>tf.edit_distance\<close> (without normalisation) is a parameter, and the mean is taken over the
  batch.
\<close>

definition from_dense :: "int list list \<Rightarrow> int list list" where
  "from_dense t = map (filter (\<lambda>v. v \<noteq> 0)) t"

definition reduce_mean :: "real list \<Rightarrow> real" where
  "reduce_mean xs = sum_list xs / real (length xs)"

definition calculate_edit_distance ::
  "('p batch \<Rightarrow> real list \<Rightarrow> bool \<Rightarrow> int list list list \<times> 'q) \<Rightarrow> (int list list \<Rightarrow> int list list \<Rightarrow> real list)
     \<Rightarrow> int \<Rightarrow> int list list \<Rightarrow> 'p batch \<Rightarrow> error + real" where
  "calculate_edit_distance ctc_decode edit_distance max_len labels predictions =
     (let saprse_labels = from_dense labels
      in case decode_greedy ctc_decode max_len predictions of
           Inl e \<Rightarrow> Inl e
         | Inr predictions_decoded \<Rightarrow>
             (let sparse_predictions = from_dense predictions_decoded;
                  edit_distances = edit_distance sparse_predictions saprse_labels
              in Inr (reduce_mean edit_distances)))"

text \<open>
  The inverse lookup \<^verbatim>\<open>num_to_char\<close> over the vocabulary of \<^verbatim>\<open>char_to_num\<close>: index 0 and every
  index out of the vocabulary give the out-of-vocabulary token.
\<close>

definition StringLookup_invert :: "char list \<Rightarrow> int \<Rightarrow> string" where
  "StringLookup_invert vocabulary i =
     (if 1 \<le> i \<and> i \<le> int (length vocabulary) then [vocabulary ! nat (i - 1)] else ''[UNK]'')"

section \<open>BASNet notebook: the hybrid loss\<close>























section \<open>The training cells of the three notebooks\<close>















section \<open>Evaluating the model builders\<close>

text \<open>
  The builders are evaluated by rewriting, strictly: the continuation of a bind, the branches of
  a conditional and the cases of a pattern match are rewritten only once their argument is a
  value.
\<close>

lemma bind_weak_cong: "m = m' \<Longrightarrow> Option.bind m f = Option.bind m' f"
  by simp

lemmas keras_defs = call_def Input_def int_shape_def spatial_def conv_output_length_def
  compute_output_shape_def single_image_def single_input_def fresh_def

text \<open>The graph of \<^verbatim>\<open>get_model(img_size=(160, 160), num_classes=3)\<close>, newest node first.\<close>

lemma get_model_160:
  "get_model (160, 160) 3 =
     Some \<lparr>inputs = \<lparr>producer = 0, static_shape = [160, 160, 3]\<rparr>,
           outputs = [\<lparr>producer = 71, static_shape = [160, 160, 3]\<rparr>],
           graph = [
        Node 71 (Conv2D 3 3 1 Same 1 True (Some ''softmax'')) [70] [160, 160, 3],
        Node 70 Add [67, 69] [160, 160, 32],
        Node 69 (Conv2D 32 1 1 Same 1 True None) [68] [160, 160, 32],
        Node 68 (UpSampling2D 2) [60] [160, 160, 64],
        Node 67 (UpSampling2D 2) [66] [160, 160, 32],
        Node 66 BatchNormalization [65] [80, 80, 32],
        Node 65 (Conv2DTranspose 32 3 Same) [64] [80, 80, 32],
        Node 64 (Activation ''relu'') [63] [80, 80, 32],
        Node 63 BatchNormalization [62] [80, 80, 32],
        Node 62 (Conv2DTranspose 32 3 Same) [61] [80, 80, 32],
        Node 61 (Activation ''relu'') [60] [80, 80, 64],
        Node 60 Add [57, 59] [80, 80, 64],
        Node 59 (Conv2D 64 1 1 Same 1 True None) [58] [80, 80, 64],
        Node 58 (UpSampling2D 2) [50] [80, 80, 128],
        Node 57 (UpSampling2D 2) [56] [80, 80, 64],
        Node 56 BatchNormalization [55] [40, 40, 64],
        Node 55 (Conv2DTranspose 64 3 Same) [54] [40, 40, 64],
        Node 54 (Activation ''relu'') [53] [40, 40, 64],
        Node 53 BatchNormalization [52] [40, 40, 64],
        Node 52 (Conv2DTranspose 64 3 Same) [51] [40, 40, 64],
        Node 51 (Activation ''relu'') [50] [40, 40, 128],
        Node 50 Add [47, 49] [40, 40, 128],
        Node 49 (Conv2D 128 1 1 Same 1 True None) [48] [40, 40, 128],
        Node 48 (UpSampling2D 2) [40] [40, 40, 256],
        Node 47 (UpSampling2D 2) [46] [40, 40, 128],
        Node 46 BatchNormalization [45] [20, 20, 128],
        Node 45 (Conv2DTranspose 128 3 Same) [44] [20, 20, 128],
        Node 44 (Activation ''relu'') [43] [20, 20, 128],
        Node 43 BatchNormalization [42] [20, 20, 128],
        Node 42 (Conv2DTranspose 128 3 Same) [41] [20, 20, 128],
        Node 41 (Activation ''relu'') [40] [20, 20, 256],
        Node 40 Add [37, 39] [20, 20, 256],
        Node 39 (Conv2D 256 1 1 Same 1 True None) [38] [20, 20, 256],
        Node 38 (UpSampling2D 2) [30] [20, 20, 256],
        Node 37 (UpSampling2D 2) [36] [20, 20, 256],
        Node 36 BatchNormalization [35] [10, 10, 256],
        Node 35 (Conv2DTranspose 256 3 Same) [34] [10, 10, 256],
        Node 34 (Activation ''relu'') [33] [10, 10, 256],
        Node 33 BatchNormalization [32] [10, 10, 256],
        Node 32 (Conv2DTranspose 256 3 Same) [31] [10, 10, 256],
        Node 31 (Activation ''relu'') [30] [10, 10, 256],
        Node 30 Add [28, 29] [10, 10, 256],
        Node 29 (Conv2D 256 1 2 Same 1 True None) [21] [10, 10, 256],
        Node 28 (MaxPooling2D 3 2 Same) [27] [10, 10, 256],
        Node 27 BatchNormalization [26] [20, 20, 256],
        Node 26 (SeparableConv2D 256 3 Same) [25] [20, 20, 256],
        Node 25 (Activation ''relu'') [24] [20, 20, 256],
        Node 24 BatchNormalization [23] [20, 20, 256],
        Node 23 (SeparableConv2D 256 3 Same) [22] [20, 20, 256],
        Node 22 (Activation ''relu'') [21] [20, 20, 128],
        Node 21 Add [19, 20] [20, 20, 128],
        Node 20 (Conv2D 128 1 2 Same 1 True None) [12] [20, 20, 128],
        Node 19 (MaxPooling2D 3 2 Same) [18] [20, 20, 128],
        Node 18 BatchNormalization [17] [40, 40, 128],
        Node 17 (SeparableConv2D 128 3 Same) [16] [40, 40, 128],
        Node 16 (Activation ''relu'') [15] [40, 40, 128],
        Node 15 BatchNormalization [14] [40, 40, 128],
        Node 14 (SeparableConv2D 128 3 Same) [13] [40, 40, 128],
        Node 13 (Activation ''relu'') [12] [40, 40, 64],
        Node 12 Add [10, 11] [40, 40, 64],
        Node 11 (Conv2D 64 1 2 Same 1 True None) [3] [40, 40, 64],
        Node 10 (MaxPooling2D 3 2 Same) [9] [40, 40, 64],
        Node 9 BatchNormalization [8] [80, 80, 64],
        Node 8 (SeparableConv2D 64 3 Same) [7] [80, 80, 64],
        Node 7 (Activation ''relu'') [6] [80, 80, 64],
        Node 6 BatchNormalization [5] [80, 80, 64],
        Node 5 (SeparableConv2D 64 3 Same) [4] [80, 80, 64],
        Node 4 (Activation ''relu'') [3] [80, 80, 32],
        Node 3 (Activation ''relu'') [2] [80, 80, 32],
        Node 2 BatchNormalization [1] [80, 80, 32],
        Node 1 (Conv2D 32 3 2 Same 1 True None) [0] [80, 80, 32],
        Node 0 InputLayer [] [160, 160, 3]]\<rparr>"
  by (simp add: get_model_def down_block_def up_block_def keras_defs
      cong: bind_weak_cong prod.case_cong_weak option.case_cong_weak if_weak_cong list.case_cong_weak)


lemma get_model_160_path:
  assumes "get_model (160, 160) 3 = Some m"
  shows "resolution_steps downsampling m =
      [(Conv2D 32 3 2 Same 1 True None, [80, 80, 32]), (MaxPooling2D 3 2 Same, [40, 40, 64]),
       (MaxPooling2D 3 2 Same, [20, 20, 128]), (MaxPooling2D 3 2 Same, [10, 10, 256])]"
    and "resolution_steps upsampling m =
      [(UpSampling2D 2, [20, 20, 256]), (UpSampling2D 2, [40, 40, 128]),
       (UpSampling2D 2, [80, 80, 64]), (UpSampling2D 2, [160, 160, 32])]"
    and "output_layers m = [Some (Conv2D 3 3 1 Same 1 True (Some ''softmax''))]"
  using assms [unfolded get_model_160 option.inject, symmetric]
  by (simp_all add: node_of_def output_path_def output_layers_def
      resolution_steps_def downsampling_def upsampling_def
      del: filter_filter
      cong: prod.case_cong_weak option.case_cong_weak if_weak_cong list.case_cong_weak
        layer.case_cong_weak)

text \<open>The softmax of a non-empty vector of reals sums to one.\<close>

lemma sum_list_exp_nonneg: "0 \<le> sum_list (map exp (xs :: real list))"
  by (induction xs) simp_all

lemma sum_list_exp_pos: "xs \<noteq> [] \<Longrightarrow> 0 < sum_list (map exp (xs :: real list))"
  by (cases xs) (simp_all add: add_pos_nonneg sum_list_exp_nonneg)

lemma sum_list_divide: "sum_list (map (\<lambda>x. f x / c) xs) = sum_list (map f xs) / (c :: real)"
  by (induction xs) (simp_all add: add_divide_distrib)

lemma sum_list_softmax: "xs \<noteq> [] \<Longrightarrow> sum_list (softmax xs) = 1"
  using sum_list_exp_pos [of xs] by (simp add: softmax_def sum_list_divide)

section \<open>How the builders extend the graph\<close>


















section \<open>Properties of the dataset split\<close>

lemma slice_to_from: "slice_to k xs @ slice_from k xs = xs"
  by (simp add: slice_to_def slice_from_def)

text \<open>
  Claim C10. For every \<^verbatim>\<open>words_list\<close>, the empty one included, and whatever the two truncated
  float products are, the three-way split passes its assertion, and the training, validation
  and test samples concatenated in this order are exactly \<^verbatim>\<open>words_list\<close>.
\<close>

theorem split_words_list_partition:
  "\<exists>s. split_words_list int_mul words_list = Inr s
      \<and> train_samples s @ validation_samples s @ test_samples s = words_list
      \<and> length words_list
          = length (train_samples s) + length (validation_samples s) + length (test_samples s)"
proof -
  define k where "k = int_mul (9 / 10) (length words_list)"
  define rest where "rest = slice_from k words_list"
  define j where "j = int_mul (1 / 2) (length rest)"
  have whole: "slice_to k words_list @ slice_to j rest @ slice_from j rest = words_list"
    by (simp add: slice_to_from rest_def)
  then have "length (slice_to k words_list @ slice_to j rest @ slice_from j rest)
      = length words_list"
    by simp
  then have len: "length words_list
      = length (slice_to k words_list) + length (slice_to j rest) + length (slice_from j rest)"
    by simp
  have "split_words_list int_mul words_list
      = Inr \<lparr>train_samples = slice_to k words_list,
             validation_samples = slice_to j rest,
             test_samples = slice_from j rest\<rparr>"
    unfolding split_words_list_def Let_def k_def [symmetric] rest_def [symmetric] j_def [symmetric]
    using len by simp
  with whole len show ?thesis by simp
qed

section \<open>Properties of the label vectorisation\<close>

text \<open>
  Claim C9. A label of \<open>n \<le> max_len\<close> characters is vectorised to the indices of its
  characters, in order, followed by \<open>max_len - n\<close> copies of the padding token 99, a vector of
  length \<open>max_len\<close>; for a longer label the pad amount is negative and the padding fails.
\<close>

theorem vectorize_label_padded:
  "(int (length label) \<le> max_len \<longrightarrow>
      (\<exists>v. vectorize_label char_to_num max_len label = Inr v
         \<and> int (length v) = max_len
         \<and> take (length label) v = map char_to_num label
         \<and> drop (length label) v = replicate (nat max_len - length label) 99))
   \<and> (max_len < int (length label) \<longrightarrow>
      max_len - int (length label) < 0
      \<and> vectorize_label char_to_num max_len label = Inl InvalidArgumentError)"
  by (auto simp: vectorize_label_def tf_pad1_def padding_token_def Let_def nat_diff_distrib')

theorem vectorize_label_padded_witness:
  "int (length ''cat'') \<le> 5
   \<and> vectorize_label (StringLookup ''act'') 5 ''cat'' = Inr [2, 1, 3, 99, 99]
   \<and> (4::int) < int (length ''tacit'')
   \<and> vectorize_label (StringLookup ''act'') 4 ''tacit'' = Inl InvalidArgumentError"
  using vectorize_label_padded [of "''cat''" 5 "StringLookup ''act''"]
    vectorize_label_padded [of "''tacit''" 4 "StringLookup ''act''"]
  by (simp add: vectorize_label_def tf_pad1_def padding_token_def StringLookup_def numeral_2_eq_2)

section \<open>Properties of the distortion-free resize\<close>

lemma pad_sides_sum: "fst (pad_sides p) + snd (pad_sides p) = p"
  by (simp add: pad_sides_def Let_def) presburger

lemma pad_sides_extra: "fst (pad_sides p) = snd (pad_sides p) + p mod 2"
  by (simp add: pad_sides_def Let_def)

lemma pad_sides_nonneg: "0 \<le> p \<Longrightarrow> 0 \<le> fst (pad_sides p) \<and> 0 \<le> snd (pad_sides p)"
  by (simp add: pad_sides_def Let_def) 

text \<open>
  Claim C8. Whenever the aspect-preserving resize yields a height of at most \<open>h\<close> and a width
  of at most \<open>w\<close>, \<^verbatim>\<open>distortion_free_resize\<close> returns a tensor of shape \<open>(w, h, c)\<close>: the top and
  bottom paddings add up to \<open>h\<close> minus the resized height, the left and right ones to \<open>w\<close>
  minus the resized width, the top (left) side gets the extra row (column) of an odd deficit,
  and the padded image is transposed with \<^verbatim>\<open>perm=[1, 0, 2]\<close> and then flipped left to right.
\<close>

theorem distortion_free_resize_shape:
  assumes "dim0 (resize img (h, w)) \<le> h" and "dim1 (resize img (h, w)) \<le> w"
  shows "\<exists>top bottom left right padded.
      top + bottom = int h - int (dim0 (resize img (h, w)))
    \<and> left + right = int w - int (dim1 (resize img (h, w)))
    \<and> top = bottom + (int h - int (dim0 (resize img (h, w)))) mod 2
    \<and> left = right + (int w - int (dim1 (resize img (h, w)))) mod 2
    \<and> tf_pad3 (resize img (h, w)) (top, bottom) (left, right) (0, 0) = Inr padded
    \<and> distortion_free_resize resize img (w, h)
        = Inr (flip_left_right (tf_transpose_102 padded))
    \<and> shape (flip_left_right (tf_transpose_102 padded)) = (w, h, dim2 (resize img (h, w)))"
proof -
  define r where "r = resize img (h, w)"
  define ph where "ph = int h - int (dim0 r)"
  define pw where "pw = int w - int (dim1 r)"
  have nn: "0 \<le> ph" "0 \<le> pw" using assms by (simp_all add: ph_def pw_def r_def)
  obtain top bottom where tb: "pad_sides ph = (top, bottom)" by (cases "pad_sides ph")
  obtain left right where lr: "pad_sides pw = (left, right)" by (cases "pad_sides pw")
  have s: "top + bottom = ph" "left + right = pw" "top = bottom + ph mod 2" "left = right + pw mod 2"
    using pad_sides_sum [of ph] pad_sides_sum [of pw] pad_sides_extra [of ph] pad_sides_extra [of pw] tb lr
    by simp_all
  have n: "0 \<le> top" "0 \<le> bottom" "0 \<le> left" "0 \<le> right"
    using pad_sides_nonneg [OF nn(1)] pad_sides_nonneg [OF nn(2)] tb lr by simp_all
  obtain padded where p: "tf_pad3 r (top, bottom) (left, right) (0, 0) = Inr padded"
    and d: "dim0 padded = nat top + dim0 r + nat bottom" "dim1 padded = nat left + dim1 r + nat right"
      "dim2 padded = dim2 r"
    using n by (simp add: tf_pad3_def)
  have d0: "dim0 padded = h" using d(1) s(1) n nn by (simp add: ph_def) 
  have d1: "dim1 padded = w" using d(2) s(2) n nn by (simp add: pw_def) 
  have "distortion_free_resize resize img (w, h) = Inr (flip_left_right (tf_transpose_102 padded))"
    using p tb lr by (simp add: distortion_free_resize_def r_def [symmetric] ph_def [symmetric] pw_def [symmetric])
  moreover have "shape (flip_left_right (tf_transpose_102 padded)) = (w, h, dim2 r)"
    using d0 d1 d(3) by (simp add: shape_def flip_left_right_def tf_transpose_102_def)
  ultimately show ?thesis using s p unfolding ph_def pw_def r_def by blast
qed

theorem distortion_free_resize_shape_witness:
  "dim0 ((\<lambda>t s. t) \<lparr>dim0 = 2, dim1 = 3, dim2 = 1, elem = (\<lambda>i j k. int (3 * i + j + 1))\<rparr> (5::nat, 4::nat)) \<le> 5
   \<and> dim1 ((\<lambda>t s. t) \<lparr>dim0 = 2, dim1 = 3, dim2 = 1, elem = (\<lambda>i j k. int (3 * i + j + 1))\<rparr> (5::nat, 4::nat)) \<le> 4
   \<and> (\<exists>out. distortion_free_resize (\<lambda>t s. t)
          \<lparr>dim0 = 2, dim1 = 3, dim2 = 1, elem = (\<lambda>i j k. int (3 * i + j + 1))\<rparr> (4, 5) = Inr out
        \<and> shape out = (4, 5, 1)
        \<and> map (\<lambda>i. map (\<lambda>j. elem out i j 0) [0, 1, 2, 3, 4]) [0, 1, 2, 3]
            = [[0, 0, 0, 0, 0], [0, 4, 1, 0, 0], [0, 5, 2, 0, 0], [0, 6, 3, 0, 0]])"
  using distortion_free_resize_shape
    [of "\<lambda>t s. t" "\<lparr>dim0 = 2, dim1 = 3, dim2 = 1, elem = (\<lambda>i j k. int (3 * i + j + 1))\<rparr>" 5 4]
  by (simp add: distortion_free_resize_def pad_sides_def tf_pad3_def tf_transpose_102_def
      flip_left_right_def shape_def)

section \<open>Properties of the U-Net model\<close>

text \<open>
  Claim C3. The model \<^verbatim>\<open>get_model(img_size=(160, 160), num_classes=3)\<close> takes an input of shape
  \<open>(160, 160, 3)\<close> and has one output of the same shape. On the path from the input to the
  output, the entry convolution of stride 2 and the three max-pooling layers of stride 2 reduce
  the side from 160 to 80, 40, 20 and 10, and the four \<^verbatim>\<open>UpSampling2D(2)\<close> layers bring it back
  to 20, 40, 80 and 160. The output is produced by the final \<^verbatim>\<open>Conv2D\<close> with \<open>num_classes = 3\<close>
  filters and softmax activation, and the softmax of the three class scores of a pixel sums
  to 1 (over the reals).
\<close>

theorem get_model_shapes:
  "\<exists>m. get_model (160, 160) 3 = Some m
     \<and> static_shape (inputs m) = [160, 160, 3]
     \<and> map static_shape (outputs m) = [[160, 160, 3]]
     \<and> resolution_steps downsampling m =
          [(Conv2D 32 3 2 Same 1 True None, [80, 80, 32]), (MaxPooling2D 3 2 Same, [40, 40, 64]),
           (MaxPooling2D 3 2 Same, [20, 20, 128]), (MaxPooling2D 3 2 Same, [10, 10, 256])]
     \<and> resolution_steps upsampling m =
          [(UpSampling2D 2, [20, 20, 256]), (UpSampling2D 2, [40, 40, 128]),
           (UpSampling2D 2, [80, 80, 64]), (UpSampling2D 2, [160, 160, 32])]
     \<and> output_layers m = [Some (Conv2D 3 3 1 Same 1 True (Some ''softmax''))]
     \<and> (\<forall>a b c. sum_list (activation_fn ''softmax'' [a, b, c]) = 1)"
proof -
  obtain m where m: "get_model (160, 160) 3 = Some m"
    by (simp add: get_model_160)
  have io: "static_shape (inputs m) = [160, 160, 3]" "map static_shape (outputs m) = [[160, 160, 3]]"
    using m by (auto simp: get_model_160)
  have sm: "\<forall>a b c. sum_list (activation_fn ''softmax'' [a, b, c]) = 1"
    by (simp add: activation_fn_def sum_list_softmax)
  show ?thesis
    using m io sm get_model_160_path [OF m] by (intro exI [of _ m]) simp
qed



section \<open>Properties of the BASNet model\<close>



section \<open>Properties of the hybrid loss\<close>












section \<open>Properties of the CTC layer and of the decoding\<close>

text \<open>
  Claim C5. On labels of shape \<open>(b, label_width)\<close> and predictions of shape
  \<open>(b, frames, classes)\<close>, \<^verbatim>\<open>CTCLayer.call\<close> hands to \<^verbatim>\<open>ctc_batch_cost\<close> the number of frames
  as the input length and the padded label width as the label length, the same for every one
  of the \<open>b\<close> samples; it registers the loss with \<^verbatim>\<open>add_loss\<close> and returns \<open>y_pred\<close> unchanged.
  The label input of \<^verbatim>\<open>build_model\<close> has the shape \<^verbatim>\<open>(None,)\<close>, which accepts every label width.
\<close>

theorem CTCLayer_call_lengths:
  assumes "batch_shape y_true = [b, label_width]"
    and "batch_shape y_pred = [b, frames, classes]"
  shows "CTCLayer_call loss_fn self y_true y_pred =
      Inr (y_pred,
           self\<lparr>losses := losses self
              @ [loss_fn y_true y_pred (replicate b [int frames]) (replicate b [int label_width])]\<rparr>)
    \<and> spec_named ''label'' build_model_inputs = Some [None]
    \<and> accepts [None] [label_width]"
  using assms
  by (simp add: CTCLayer_call_def shape_at_def scalar_times_def tf_ones_def add_loss_def
      spec_named_def build_model_inputs_def accepts_def)

theorem CTCLayer_call_lengths_witness:
  "batch_shape \<lparr>batch_shape = [2, 3], batch_values = [[5, 7, 99], [4, 99, 99 :: int]]\<rparr> = [2, 3]
   \<and> batch_shape \<lparr>batch_shape = [2, 4, 9], batch_values = ()\<rparr> = [2, 4, 9]
   \<and> CTCLayer_call (\<lambda>t p il ll. (il, ll)) \<lparr>layer_name = ''ctc_loss'', losses = []\<rparr>
        \<lparr>batch_shape = [2, 3], batch_values = [[5, 7, 99], [4, 99, 99 :: int]]\<rparr>
        \<lparr>batch_shape = [2, 4, 9], batch_values = ()\<rparr>
      = Inr (\<lparr>batch_shape = [2, 4, 9], batch_values = ()\<rparr>,
             \<lparr>layer_name = ''ctc_loss'', losses = [([[4], [4]], [[3], [3]])]\<rparr>)"
  using CTCLayer_call_lengths [of
      "\<lparr>batch_shape = [2, 3], batch_values = [[5, 7, 99], [4, 99, 99 :: int]]\<rparr>" 2 3
      "\<lparr>batch_shape = [2, 4, 9], batch_values = ()\<rparr>" 4 9
      "\<lambda>t p il ll. (il, ll)" "\<lparr>layer_name = ''ctc_loss'', losses = []\<rparr>"]
  by (simp add: numeral_2_eq_2)

lemma slice_to_take:
  assumes "0 \<le> k"
  shows "slice_to k xs = take (nat k) xs"
proof (cases "k \<le> int (length xs)")
  case True
  with assms show ?thesis by (simp add: slice_to_def py_index_def Let_def min_def)
next
  case False
  then have "length xs \<le> nat k" by simp
  with assms False show ?thesis by (simp add: slice_to_def py_index_def Let_def min_def)
qed

lemma np_ones_times_replicate: "np_ones_times n c = replicate n (real c)"
  by (simp add: np_ones_times_def)

lemma decode_greedy_take:
  assumes "batch_shape pred = b # frames # rest"
    and "ctc_decode pred (replicate b (real frames)) True = (decoded # others, log_prob)"
    and "0 \<le> max_len"
  shows "decode_greedy ctc_decode max_len pred = Inr (map (take (nat max_len)) decoded)"
  using assms
  by (simp add: decode_greedy_def np_ones_times_replicate first_decoded_def slice_to_take)

text \<open>
  Claim C6. Both \<^verbatim>\<open>decode_batch_predictions\<close> and \<^verbatim>\<open>calculate_edit_distance\<close> depend on the
  decoder only through its greedy result, \<^verbatim>\<open>ctc_decode(pred, input_length, greedy=True)[0][0]\<close>, of
  which they keep the first \<open>max_len\<close> tokens of every row. \<^verbatim>\<open>decode_batch_predictions\<close> then
  drops every -1 and joins the characters of the remaining indices, so the strings of two
  samples can have different lengths, as those of the example do.
\<close>

theorem decoding_is_greedy:
  assumes "batch_shape pred = b # frames # rest"
    and "ctc_decode pred (replicate b (real frames)) True = (decoded # others, log_prob)"
    and "0 \<le> max_len"
  shows "decode_batch_predictions ctc_decode num_to_char max_len pred =
      Inr (map (\<lambda>row. concat (map num_to_char (filter (\<lambda>t. t \<noteq> - 1) (take (nat max_len) row))))
             decoded)
    \<and> calculate_edit_distance ctc_decode edit_distance max_len labels pred =
      Inr (reduce_mean (edit_distance (from_dense (map (take (nat max_len)) decoded))
             (from_dense labels)))
    \<and> (\<exists>texts. decode_batch_predictions
          (\<lambda>p il greedy. if greedy then ([[[1, 2, 2, - 1], [3, - 1, - 1, - 1]]], ()) else ([], ()))
          (StringLookup_invert ''abc'') 3 \<lparr>batch_shape = [2, 4, 5], batch_values = ()\<rparr> = Inr texts
        \<and> map length texts = [3, 1])"
  using decode_greedy_take [where ctc_decode = ctc_decode and pred = pred, OF assms]
  by (simp add: decode_batch_predictions_def calculate_edit_distance_def decode_greedy_def
      np_ones_times_def first_decoded_def slice_to_def py_index_def StringLookup_invert_def)

theorem decoding_is_greedy_witness:
  "batch_shape \<lparr>batch_shape = [2, 4, 5], batch_values = ()\<rparr> = 2 # 4 # [5]
   \<and> (\<lambda>p il greedy. if greedy then ([[[1, 2, 2, - 1], [3, - 1, - 1, - 1 :: int]]], ()) else ([], ()))
        \<lparr>batch_shape = [2, 4, 5], batch_values = ()\<rparr> (replicate 2 (real 4)) True
      = ([[1, 2, 2, - 1], [3, - 1, - 1, - 1]] # [], ())
   \<and> (0 :: int) \<le> 3
   \<and> decode_batch_predictions
        (\<lambda>p il greedy. if greedy then ([[[1, 2, 2, - 1], [3, - 1, - 1, - 1]]], ()) else ([], ()))
        (StringLookup_invert ''abc'') 3 \<lparr>batch_shape = [2, 4, 5], batch_values = ()\<rparr>
      = Inr [''abb'', ''c'']
   \<and> calculate_edit_distance
        (\<lambda>p il greedy. if greedy then ([[[1, 2, 2, - 1], [3, - 1, - 1, - 1]]], ()) else ([], ()))
        (\<lambda>ps ls. map (\<lambda>p. real (length p)) ps) 3 [[1, 2, 99], [3, 99, 99]]
        \<lparr>batch_shape = [2, 4, 5], batch_values = ()\<rparr>
      = Inr 3"
  using decoding_is_greedy [of "\<lparr>batch_shape = [2, 4, 5], batch_values = ()\<rparr>" 2 4 "[5]"
      "\<lambda>p il greedy. if greedy then ([[[1, 2, 2, - 1], [3, - 1, - 1, - 1]]], ()) else ([], ())"
      "[[1, 2, 2, - 1], [3, - 1, - 1, - 1]]" "[]" "()" 3 "StringLookup_invert ''abc''"
      "\<lambda>ps ls. map (\<lambda>p. real (length p)) ps" "[[1, 2, 99], [3, 99, 99]]"]
  by (simp add: StringLookup_invert_def from_dense_def reduce_mean_def)

section \<open>Properties of the training cells\<close>





end
